theory Spec2Isabelle
  imports Complex_Main "HOL-Library.Log_Nat"
begin

section \<open>User and authentication utilities (utils/user.js)\<close>

text \<open>
  The module is a set of functions in continuation-passing style over a document
  database (mongoose), an LDAP client and a password-hashing helper. The embedding
  returns what the source passes to its callback: each function maps the world before
  the call to an outcome and the world after it. Calls of \<open>config.logger\<close> have no
  effect on any result and are left out.

  Embedded are \<open>authenticate\<close>, \<open>isUsernameValid\<close>, \<open>userExist\<close>,
  \<open>findOrCreateLDAPUser\<close>, \<open>activateUser\<close>, \<open>validateResetKey\<close>, \<open>sendResetKey\<close>,
  \<open>resetPassword\<close>, \<open>saveFeedback\<close> and \<open>getUnreadFeedbackCount\<close>, and the callbacks
  of \<open>getFeedbackData\<close> and \<open>saveLastSeen\<close>. The session checks
  \<open>requiredAuthentication\<close> and \<open>requiredAdmin\<close> touch neither the database nor a
  callback with an error and are not embedded.
\<close>

subsection \<open>Values\<close>

text \<open>A JavaScript error object: \<open>new Error(msg)\<close> has the name \<open>Error\<close>.\<close>

record js_error =
  name :: string
  message :: string

definition new_Error :: "string \<Rightarrow> js_error" where
  "new_Error msg = \<lparr>name = ''Error'', message = msg\<rparr>"

text \<open>
  What a function of the module does with its callback \<open>fn\<close>: it calls
  \<open>fn(err, value)\<close> (a missing or null argument is \<open>None\<close>), or an exception leaves
  the function, or the callback is never called.
\<close>

datatype ('e, 'a) outcome =
    Callback "'e option" "'a option"
  | Thrown js_error
  | NoCallback

text \<open>The documents of the three collections, with the fields the module reads or writes.
  Identifiers (\<open>_id\<close>, ObjectID) are natural numbers, dates are milliseconds.\<close>

record user =
  oid :: nat
  username :: string
  salt :: string
  hash :: string
  activated :: bool
  security_question :: string
  security_answer :: string

record password_reset =
  reset_key :: string
  user_id :: nat
  date :: int
  used :: bool

record feedback =
  fb_user_id :: "nat option"
  feedback_data :: string
  fb_date :: int

subsection \<open>Configuration and module dependencies\<close>

text \<open>\<open>config/config.js\<close> is not part of the source: its constants are parameters.\<close>

record config =
  AUTH_USE_LDAP :: bool
  RESET_VALIDITY :: rat
  ERR_AUTH_LDAP_SERVER_DOWN :: string
  ERR_AUTH_FAILED :: string
  ERR_AUTH_LDAP_ERROR :: string
  ERR_AUTH_INVALID_USERNAME :: string
  ERR_AUTH_ACTIVATION_PENDING :: string
  ERR_AUTH_INVALID_PASSWORD :: string
  ERR_SIGNUP_ALREADY_EXISTS :: string
  ERR_ACTIVATION_INVALID_KEY :: string
  ERR_RESET_INVALID_DETAILS :: string
  URL_SIGNUP :: string

text \<open>
  The helpers of \<open>./pass\<close> and \<open>./stats\<close> and the LDAP client are not part of the
  source either; what they hand to their callbacks is a parameter.
  \<^item> \<open>ldap.authenticate(name, pass, cb)\<close>: the module reads only \<open>err\<close>.
  \<^item> \<open>crypt.hash(pass, salt, cb)\<close> and \<open>crypt.hash(pass, cb)\<close>: the module tests
    \<open>err\<close> before it reads the hash, so the reply is an error or a value.
  \<^item> \<open>decryptResetKey\<close> and \<open>getUserIdFromName\<close>: the module ignores \<open>err\<close> and
    uses the value, which may be missing; \<open>generateResetKey\<close> is taken to yield a key.
  \<^item> \<open>String.prototype.toLowerCase\<close> on a string with a character outside ASCII follows
    the Unicode case tables, which are a parameter as well.
  \<^item> \<open>models/models.js\<close>: the fields a schema fills in for a new document are the
    defaults below; a document is stored with the fields it is given, as written.
\<close>

record deps =
  ldap_authenticate :: "string \<Rightarrow> string \<Rightarrow> js_error option"
  crypt_hash :: "string \<Rightarrow> string \<Rightarrow> js_error + string"
  crypt_hash_new :: "string \<Rightarrow> js_error + (string \<times> string)"
  decryptResetKey :: "string \<Rightarrow> nat option"
  generateResetKey :: "nat \<Rightarrow> string"
  getUserIdFromName :: "string \<Rightarrow> nat option"
  User_defaults :: user
  PasswordReset_used_default :: bool
  unicode_toLowerCase :: "string \<Rightarrow> string"

subsection \<open>The world: database, faults and the calls made\<close>

text \<open>The calls the module makes to the outside.\<close>

datatype call =
    LDAP_authenticate
  | Crypt_hash
  | User_findOne
  | User_count
  | User_save
  | User_update
  | PasswordReset_findOne
  | PasswordReset_save
  | PasswordReset_findOneAndUpdate
  | Feedback_count
  | Feedback_save
  | Mail_resetKey

text \<open>
  The world holds the three collections in insertion order, which database calls fail
  (\<open>failing c = Some e\<close>: a call of kind \<open>c\<close> replies with the error \<open>e\<close> and no
  result), and the calls made so far, oldest first.
\<close>

record world =
  users :: "user list"
  resets :: "password_reset list"
  feedbacks :: "feedback list"
  failing :: "call \<Rightarrow> js_error option"
  calls :: "call list"

definition logged :: "call \<Rightarrow> world \<Rightarrow> world" where
  "logged c w = w\<lparr>calls := calls w @ [c]\<rparr>"

text \<open>A database reply \<open>(err, result)\<close> as the callback of a query receives it.\<close>

type_synonym 'a reply = "js_error option \<times> 'a option"

text \<open>\<open>findOne(query, cb)\<close>: the first document that matches.\<close>

definition findOne :: "call \<Rightarrow> ('d \<Rightarrow> bool) \<Rightarrow> 'd list \<Rightarrow> world \<Rightarrow> 'd reply \<times> world" where
  "findOne c query docs w =
     (case failing w c of
        Some e \<Rightarrow> ((Some e, None), logged c w)
      | None \<Rightarrow> ((None, find query docs), logged c w))"

text \<open>\<open>count(query, cb)\<close>: the number of documents that match.\<close>

definition count_docs :: "call \<Rightarrow> ('d \<Rightarrow> bool) \<Rightarrow> 'd list \<Rightarrow> world \<Rightarrow> nat reply \<times> world" where
  "count_docs c query docs w =
     (case failing w c of
        Some e \<Rightarrow> ((Some e, None), logged c w)
      | None \<Rightarrow> ((None, Some (length (filter query docs))), logged c w))"

text \<open>An update with \<open>multi: false\<close> changes the first document that matches.\<close>

fun update_first :: "('d \<Rightarrow> bool) \<Rightarrow> ('d \<Rightarrow> 'd) \<Rightarrow> 'd list \<Rightarrow> 'd list" where
  "update_first query upd [] = []"
| "update_first query upd (d # ds) =
     (if query d then upd d # ds else d # update_first query upd ds)"

definition matched :: "('d \<Rightarrow> bool) \<Rightarrow> 'd list \<Rightarrow> nat" where
  "matched query docs = (if find query docs = None then 0 else 1)"

definition fresh_oid :: "world \<Rightarrow> nat" where
  "fresh_oid w = Suc (fold max (map oid (users w)) 0)"

definition User_findOne_q :: "(user \<Rightarrow> bool) \<Rightarrow> world \<Rightarrow> user reply \<times> world" where
  "User_findOne_q query w = findOne User_findOne query (users w) w"

definition User_count_q :: "(user \<Rightarrow> bool) \<Rightarrow> world \<Rightarrow> nat reply \<times> world" where
  "User_count_q query w = count_docs User_count query (users w) w"

text \<open>\<open>new models.User(doc).save(cb)\<close>: the document gets its identifier and is appended.\<close>

definition User_save_doc :: "user \<Rightarrow> world \<Rightarrow> user reply \<times> world" where
  "User_save_doc doc w =
     (case failing w User_save of
        Some e \<Rightarrow> ((Some e, None), logged User_save w)
      | None \<Rightarrow>
          (let new_user = doc\<lparr>oid := fresh_oid w\<rparr>
           in ((None, Some new_user), logged User_save (w\<lparr>users := users w @ [new_user]\<rparr>))))"

text \<open>\<open>User.update(query, update, {multi: false}, cb)\<close>: replies with the number of
  documents it updated.\<close>

definition User_update_q :: "(user \<Rightarrow> bool) \<Rightarrow> (user \<Rightarrow> user) \<Rightarrow> world \<Rightarrow> nat reply \<times> world" where
  "User_update_q query upd w =
     (case failing w User_update of
        Some e \<Rightarrow> ((Some e, None), logged User_update w)
      | None \<Rightarrow>
          ((None, Some (matched query (users w))),
           logged User_update (w\<lparr>users := update_first query upd (users w)\<rparr>)))"

definition PasswordReset_findOne_q ::
  "(password_reset \<Rightarrow> bool) \<Rightarrow> world \<Rightarrow> password_reset reply \<times> world" where
  "PasswordReset_findOne_q query w = findOne PasswordReset_findOne query (resets w) w"

text \<open>\<open>PasswordReset.findOneAndUpdate(query, update, {}, cb)\<close>: no upsert; the reply
  carries the document found, if any.\<close>

definition PasswordReset_findOneAndUpdate_q ::
  "(password_reset \<Rightarrow> bool) \<Rightarrow> (password_reset \<Rightarrow> password_reset) \<Rightarrow> world
     \<Rightarrow> password_reset reply \<times> world" where
  "PasswordReset_findOneAndUpdate_q query upd w =
     (case failing w PasswordReset_findOneAndUpdate of
        Some e \<Rightarrow> ((Some e, None), logged PasswordReset_findOneAndUpdate w)
      | None \<Rightarrow>
          ((None, map_option upd (find query (resets w))),
           logged PasswordReset_findOneAndUpdate
             (w\<lparr>resets := update_first query upd (resets w)\<rparr>)))"

text \<open>\<open>new models.PasswordReset(doc).save(cb)\<close> and \<open>new models.Feedback(doc).save(cb)\<close>\<close>

definition PasswordReset_save_doc :: "password_reset \<Rightarrow> world \<Rightarrow> password_reset reply \<times> world" where
  "PasswordReset_save_doc doc w =
     (case failing w PasswordReset_save of
        Some e \<Rightarrow> ((Some e, None), logged PasswordReset_save w)
      | None \<Rightarrow> ((None, Some doc), logged PasswordReset_save (w\<lparr>resets := resets w @ [doc]\<rparr>)))"

definition Feedback_save_doc :: "feedback \<Rightarrow> world \<Rightarrow> feedback reply \<times> world" where
  "Feedback_save_doc doc w =
     (case failing w Feedback_save of
        Some e \<Rightarrow> ((Some e, None), logged Feedback_save w)
      | None \<Rightarrow> ((None, Some doc), logged Feedback_save (w\<lparr>feedbacks := feedbacks w @ [doc]\<rparr>)))"

definition Feedback_count_q :: "(feedback \<Rightarrow> bool) \<Rightarrow> world \<Rightarrow> nat reply \<times> world" where
  "Feedback_count_q query w = count_docs Feedback_count query (feedbacks w) w"

subsection \<open>Numbers\<close>

text \<open>
  A JavaScript number is an IEEE 754 double: every arithmetic result is rounded to the
  nearest number with a significand of 53 bits, a tie going to the even significand.
  \<open>to_double\<close> is that rounding on the rationals. Overflow and subnormal numbers are
  left out: the time value of a \<open>Date\<close> is an integer of magnitude at most
  \<open>8.64e15\<close>, so a difference of two dates is below \<open>2^54\<close> and a nonzero quotient
  by \<open>36e5\<close> is above \<open>2^-22\<close>.
\<close>

definition pow2 :: "int \<Rightarrow> rat" where
  "pow2 e = (if 0 \<le> e then 2 ^ nat e else 1 / 2 ^ nat (- e))"

text \<open>The exponent of a positive number: the largest \<open>e\<close> with \<open>2^e \<le> x\<close>.\<close>

definition exponent :: "rat \<Rightarrow> int" where
  "exponent x = (if 1 \<le> x then bitlen \<lfloor>x\<rfloor> - 1 else - bitlen (\<lceil>1 / x\<rceil> - 1))"

definition round_half_even :: "rat \<Rightarrow> int" where
  "round_half_even y =
     (let f = \<lfloor>y\<rfloor>; r = y - of_int f
      in if r < 1 / 2 then f
         else if 1 / 2 < r then f + 1
         else if even f then f else f + 1)"

definition to_double :: "rat \<Rightarrow> rat" where
  "to_double x =
     (if x = 0 then 0
      else (let e = exponent \<bar>x\<bar> - 52
            in sgn x * of_int (round_half_even (\<bar>x\<bar> / pow2 e)) * pow2 e))"

text \<open>\<open>Math.abs(new Date() - reset_entry.date) / 36e5\<close>: the subtraction converts both
  dates to their time values and rounds the difference, the division rounds the
  quotient.\<close>

definition time_diff :: "int \<Rightarrow> int \<Rightarrow> rat" where
  "time_diff now entry_date =
     to_double (\<bar>to_double (of_int now - of_int entry_date)\<bar> / 3600000)"

subsection \<open>Strings\<close>

text \<open>\<open>String.prototype.toLowerCase\<close>. A string is its sequence of UTF-8 bytes. On a
  string of ASCII characters the letters A to Z are mapped to a to z and every other
  character is kept; a string with a byte outside ASCII is lowercased by the Unicode
  tables.\<close>

definition lower_char :: "char \<Rightarrow> char" where
  "lower_char c =
     (case map_of (zip ''ABCDEFGHIJKLMNOPQRSTUVWXYZ'' ''abcdefghijklmnopqrstuvwxyz'') c of
        Some l \<Rightarrow> l
      | None \<Rightarrow> c)"

definition is_ascii :: "string \<Rightarrow> bool" where
  "is_ascii s = list_all (\<lambda>c. \<not> digit7 c) s"

definition toLowerCase :: "deps \<Rightarrow> string \<Rightarrow> string" where
  "toLowerCase d s = (if is_ascii s then map lower_char s else unicode_toLowerCase d s)"

subsection \<open>The functions of the module\<close>

text \<open>\<open>isUsernameValid(name, fn)\<close>\<close>

definition isUsernameValid ::
  "config \<Rightarrow> deps \<Rightarrow> string \<Rightarrow> world \<Rightarrow> (js_error, bool) outcome \<times> world" where
  "isUsernameValid cfg d nm w =
     (case User_findOne_q (\<lambda>u. username u = toLowerCase d nm) w of
        ((err, Some user), w1) \<Rightarrow>
          (if err \<noteq> None
           then (Callback (Some (new_Error (ERR_AUTH_INVALID_USERNAME cfg))) None, w1)
           else (Callback None (Some True), w1))
      | ((err, None), w1) \<Rightarrow> (Callback None (Some False), w1))"

text \<open>\<open>findOrCreateLDAPUser(username, fn)\<close>\<close>

definition findOrCreateLDAPUser ::
  "config \<Rightarrow> deps \<Rightarrow> string \<Rightarrow> world \<Rightarrow> (js_error, user) outcome \<times> world" where
  "findOrCreateLDAPUser cfg d uname w =
     (case isUsernameValid cfg d uname w of
        (Callback (Some err) valid, w1) \<Rightarrow> (Callback (Some err) None, w1)
      | (Callback None valid, w1) \<Rightarrow>
          (if valid = Some True
           then (case User_findOne_q (\<lambda>u. username u = toLowerCase d uname) w1 of
                   ((err, existing_user), w2) \<Rightarrow> (Callback None existing_user, w2))
           else (case User_save_doc ((User_defaults d)\<lparr>username := uname\<rparr>) w1 of
                   ((err, new_user), w2) \<Rightarrow> (Callback None new_user, w2)))
      | (Thrown e, w1) \<Rightarrow> (Thrown e, w1)
      | (NoCallback, w1) \<Rightarrow> (NoCallback, w1))"

text \<open>\<open>authenticate(name, pass, fn)\<close>\<close>

definition authenticate ::
  "config \<Rightarrow> deps \<Rightarrow> string \<Rightarrow> string \<Rightarrow> world \<Rightarrow> (js_error, user) outcome \<times> world" where
  "authenticate cfg d nm pass w =
     (if AUTH_USE_LDAP cfg then
        (let w1 = logged LDAP_authenticate w in
         case ldap_authenticate d nm pass of
           Some err \<Rightarrow>
             (if name err = ''ConnectionError''
              then (Callback (Some (new_Error (ERR_AUTH_LDAP_SERVER_DOWN cfg))) None, w1)
              else if name err = ''InvalidCredentialsError''
              then (Callback (Some (new_Error (ERR_AUTH_FAILED cfg))) None, w1)
              else (Callback (Some (new_Error (ERR_AUTH_LDAP_ERROR cfg))) None, w1))
         | None \<Rightarrow>
             (case findOrCreateLDAPUser cfg d nm w1 of
                (Callback err user, w2) \<Rightarrow> (Callback None user, w2)
              | (Thrown e, w2) \<Rightarrow> (Thrown e, w2)
              | (NoCallback, w2) \<Rightarrow> (NoCallback, w2)))
      else
        (case User_findOne_q (\<lambda>u. username u = toLowerCase d nm) w of
           ((err, Some user), w1) \<Rightarrow>
             (if err \<noteq> None
              then (Callback (Some (new_Error (ERR_AUTH_INVALID_USERNAME cfg))) None, w1)
              else if \<not> activated user
              then (Callback (Some (new_Error (ERR_AUTH_ACTIVATION_PENDING cfg))) None, w1)
              else
                (let w2 = logged Crypt_hash w1 in
                 case crypt_hash d pass (salt user) of
                   Inl err \<Rightarrow> (Callback (Some err) None, w2)
                 | Inr h \<Rightarrow>
                     (if h = hash user then (Callback None (Some user), w2)
                      else (Callback (Some (new_Error (ERR_AUTH_INVALID_PASSWORD cfg))) None, w2))))
         | ((err, None), w1) \<Rightarrow>
             (Callback (Some (new_Error (ERR_AUTH_INVALID_USERNAME cfg))) None, w1)))"

text \<open>\<open>userExist(req, res, next)\<close>: the middleware either calls \<open>next()\<close> or stores an
  error in the session and redirects.\<close>

datatype response = Next | Redirect string string

definition userExist :: "config \<Rightarrow> deps \<Rightarrow> string \<Rightarrow> world \<Rightarrow> response \<times> world" where
  "userExist cfg d body_username w =
     (case User_count_q (\<lambda>u. username u = toLowerCase d body_username) w of
        ((err, count), w1) \<Rightarrow>
          (if count = Some 0 then (Next, w1)
           else (Redirect (ERR_SIGNUP_ALREADY_EXISTS cfg) (URL_SIGNUP cfg), w1)))"

text \<open>\<open>activateUser(id, fn)\<close>: the model \<open>User\<close> that the function builds for the
  update is a model of the same collection as \<open>models.User\<close>.\<close>

definition activateUser ::
  "config \<Rightarrow> nat \<Rightarrow> world \<Rightarrow> (js_error, nat) outcome \<times> world" where
  "activateUser cfg ident w =
     (case User_findOne_q (\<lambda>u. oid u = ident) w of
        ((err, Some user), w1) \<Rightarrow>
          (case User_update_q (\<lambda>u. oid u = ident \<and> activated u = False)
                  (\<lambda>u. u\<lparr>activated := True\<rparr>) w1 of
             ((Some err, count), w2) \<Rightarrow> (Thrown err, w2)
           | ((None, count), w2) \<Rightarrow> (Callback None count, w2))
      | ((err, None), w1) \<Rightarrow>
          (Callback (Some (new_Error (ERR_ACTIVATION_INVALID_KEY cfg))) None, w1))"

text \<open>\<open>validateResetKey(reset_key, fn)\<close>: first the callback that the function hands
  to \<open>findOne\<close>, then the function. \<open>now\<close> is the time value of \<open>new Date()\<close>;
  \<open>hours\<close> is the variable \<open>time_diff\<close> of the source.\<close>

definition validateResetKey_callback ::
  "config \<Rightarrow> int \<Rightarrow> password_reset reply \<Rightarrow> (js_error, string) outcome" where
  "validateResetKey_callback cfg now rep =
     (case rep of
        (err, Some reset_entry) \<Rightarrow>
          (if used reset_entry then Callback None (Some ''used'')
           else
             (let hours = time_diff now (date reset_entry)
              in if hours \<le> RESET_VALIDITY cfg
                 then Callback None (Some ''success'')
                 else Callback None (Some ''failure'')))
      | (err, None) \<Rightarrow> Callback None (Some ''invalid_key''))"

definition validateResetKey ::
  "config \<Rightarrow> int \<Rightarrow> string \<Rightarrow> world \<Rightarrow> (js_error, string) outcome \<times> world" where
  "validateResetKey cfg now key w =
     (case PasswordReset_findOne_q (\<lambda>r. reset_key r = key) w of
        (rep, w1) \<Rightarrow> (validateResetKey_callback cfg now rep, w1))"

text \<open>\<open>resetPassword(reset_key, new_password, fn)\<close>. A key that does not decrypt gives
  no user id, and the query \<open>{_id: user_id}\<close> then matches no user.\<close>

definition resetPassword ::
  "deps \<Rightarrow> string \<Rightarrow> string \<Rightarrow> world \<Rightarrow> (js_error, bool) outcome \<times> world" where
  "resetPassword d key new_password w =
     (let uid = decryptResetKey d key; w0 = logged Crypt_hash w in
      case crypt_hash_new d new_password of
        Inl err \<Rightarrow> (Thrown err, w0)
      | Inr (s, h) \<Rightarrow>
          (case User_update_q (\<lambda>u. Some (oid u) = uid) (\<lambda>u. u\<lparr>salt := s, hash := h\<rparr>) w0 of
             ((Some err, count), w1) \<Rightarrow> (Thrown err, w1)
           | ((None, count), w1) \<Rightarrow>
               (case PasswordReset_findOneAndUpdate_q (\<lambda>r. reset_key r = key)
                       (\<lambda>r. r\<lparr>used := True\<rparr>) w1 of
                  ((Some err, updated_record), w2) \<Rightarrow> (Thrown err, w2)
                | ((None, updated_record), w2) \<Rightarrow> (Callback None (Some True), w2))))"

text \<open>\<open>getUnreadFeedbackCount(last_seen, fn)\<close>: the callback handed to \<open>count\<close>,
  then the function. \<open>unread_count || 0\<close> turns a missing count into 0 and keeps every
  number.\<close>

definition getUnreadFeedbackCount_callback :: "nat reply \<Rightarrow> (js_error, nat) outcome" where
  "getUnreadFeedbackCount_callback rep =
     (case rep of
        (err, unread_count) \<Rightarrow>
          Callback None (Some (case unread_count of None \<Rightarrow> 0 | Some n \<Rightarrow> n)))"

definition getUnreadFeedbackCount ::
  "int \<Rightarrow> world \<Rightarrow> (js_error, nat) outcome \<times> world" where
  "getUnreadFeedbackCount seen w =
     (case Feedback_count_q (\<lambda>f. seen \<le> fb_date f) w of
        (rep, w1) \<Rightarrow> (getUnreadFeedbackCount_callback rep, w1))"

text \<open>\<open>sendResetKey(name, security_question, security_answer, domain, ip, user_cookie, fn)\<close>:
  \<open>domain\<close>, \<open>ip\<close> and \<open>user_cookie\<close> only go into the mail.\<close>

definition sendResetKey ::
  "config \<Rightarrow> deps \<Rightarrow> int \<Rightarrow> string \<Rightarrow> string \<Rightarrow> string \<Rightarrow> world
     \<Rightarrow> (js_error, string) outcome \<times> world" where
  "sendResetKey cfg d now nm question answer w =
     (case User_findOne_q (\<lambda>u. username u = toLowerCase d nm \<and> security_question u = question
                               \<and> security_answer u = answer) w of
        ((err, Some user), w1) \<Rightarrow>
          (let key = generateResetKey d (oid user) in
           case PasswordReset_save_doc
                  \<lparr>reset_key = key, user_id = oid user, date = now,
                   used = PasswordReset_used_default d\<rparr> w1 of
             ((err, entry), w2) \<Rightarrow> (Callback None (Some key), logged Mail_resetKey w2))
      | ((err, None), w1) \<Rightarrow>
          (Callback (Some (new_Error (ERR_RESET_INVALID_DETAILS cfg))) None, w1))"

text \<open>\<open>saveFeedback(username, feedback_data, fn)\<close>: \<open>fn\<close> is never called. The date of
  the new document is the schema's default, the time of the call.\<close>

definition saveFeedback ::
  "deps \<Rightarrow> int \<Rightarrow> string \<Rightarrow> string \<Rightarrow> world \<Rightarrow> (js_error, unit) outcome \<times> world" where
  "saveFeedback d now uname data w =
     (case Feedback_save_doc
             \<lparr>fb_user_id = getUserIdFromName d uname, feedback_data = data, fb_date = now\<rparr> w of
        ((err, saved_data), w1) \<Rightarrow> (NoCallback, w1))"

text \<open>\<open>getFeedbackData(fn)\<close> and \<open>saveLastSeen(username, fn)\<close>: the callbacks they hand
  to the query \<open>find \<dots> sort \<dots> populate \<dots> lean \<dots> exec\<close> and to
  \<open>findByIdAndUpdate\<close> with \<open>upsert\<close>; the reply of the database is the argument.
  Reading \<open>upserted_record._id\<close> of a missing record raises a TypeError.\<close>

definition getFeedbackData_callback :: "'a reply \<Rightarrow> (js_error, 'a) outcome" where
  "getFeedbackData_callback rep = (case rep of (err, found) \<Rightarrow> Callback None found)"

definition TypeError :: js_error where
  "TypeError = \<lparr>name = ''TypeError'', message = ''Cannot read property _id''\<rparr>"

definition saveLastSeen_callback :: "user reply \<Rightarrow> (string, nat) outcome" where
  "saveLastSeen_callback rep =
     (case rep of
        (Some err, upserted_record) \<Rightarrow> Callback (Some (message err)) None
      | (None, Some upserted_record) \<Rightarrow> Callback None (Some (oid upserted_record))
      | (None, None) \<Rightarrow> Thrown TypeError)"

subsection \<open>The calls made by a run\<close>


subsection \<open>Concrete inputs\<close>

text \<open>A configuration, dependencies that accept every LDAP login and hash by appending the
  salt, one activated user and one open reset ticket. They are the inputs at which the
  theorems below are instantiated.\<close>

definition demo_config :: config where
  "demo_config =
     \<lparr>AUTH_USE_LDAP = False, RESET_VALIDITY = 24,
      ERR_AUTH_LDAP_SERVER_DOWN = ''ldap down'', ERR_AUTH_FAILED = ''auth failed'',
      ERR_AUTH_LDAP_ERROR = ''ldap error'', ERR_AUTH_INVALID_USERNAME = ''invalid username'',
      ERR_AUTH_ACTIVATION_PENDING = ''activation pending'',
      ERR_AUTH_INVALID_PASSWORD = ''invalid password'',
      ERR_SIGNUP_ALREADY_EXISTS = ''already exists'',
      ERR_ACTIVATION_INVALID_KEY = ''invalid activation key'',
      ERR_RESET_INVALID_DETAILS = ''invalid details'',
      URL_SIGNUP = ''/signup''\<rparr>"

definition demo_user :: user where
  "demo_user =
     \<lparr>oid = 1, username = ''alice'', salt = ''s'', hash = ''pws'', activated = True,
      security_question = ''q'', security_answer = ''a''\<rparr>"

definition demo_deps :: deps where
  "demo_deps =
     \<lparr>ldap_authenticate = (\<lambda>nm pass. None),
      crypt_hash = (\<lambda>pass s. Inr (pass @ s)),
      crypt_hash_new = (\<lambda>pass. Inr (''t'', pass @ ''t'')),
      decryptResetKey = (\<lambda>key. Some 1),
      generateResetKey = (\<lambda>i. ''k''),
      getUserIdFromName = (\<lambda>nm. Some 1),
      User_defaults = demo_user\<lparr>oid := 0, username := [], salt := [], hash := [],
                                 activated := False\<rparr>,
      PasswordReset_used_default = False,
      unicode_toLowerCase = (\<lambda>s. s)\<rparr>"

definition demo_ticket :: password_reset where
  "demo_ticket = \<lparr>reset_key = ''k'', user_id = 1, date = 0, used = False\<rparr>"

definition demo_error :: js_error where
  "demo_error = \<lparr>name = ''MongoError'', message = ''connection lost''\<rparr>"

definition demo_world :: world where
  "demo_world =
     \<lparr>users = [demo_user], resets = [demo_ticket], feedbacks = [],
      failing = (\<lambda>c. None), calls = []\<rparr>"

definition demo_feedback :: "int \<Rightarrow> feedback" where
  "demo_feedback t = \<lparr>fb_user_id = Some 1, feedback_data = ''nice'', fb_date = t\<rparr>"

definition demo_hash_error :: js_error where
  "demo_hash_error = \<lparr>name = ''Error'', message = ''hashing failed''\<rparr>"

definition demo_deps_hash_fails :: deps where
  "demo_deps_hash_fails =
     demo_deps\<lparr>crypt_hash := (\<lambda>pass s. Inl demo_hash_error),
               crypt_hash_new := (\<lambda>pass. Inl demo_hash_error)\<rparr>"

definition demo_config_ldap :: config where
  "demo_config_ldap = demo_config\<lparr>AUTH_USE_LDAP := True\<rparr>"

definition demo_deps_ldap_error :: "string \<Rightarrow> deps" where
  "demo_deps_ldap_error n =
     demo_deps\<lparr>ldap_authenticate := (\<lambda>nm pass. Some \<lparr>name = n, message = ''ldap''\<rparr>)\<rparr>"

definition demo_world_update_fails :: world where
  "demo_world_update_fails =
     demo_world\<lparr>failing := (\<lambda>c. if c = User_update then Some demo_error else None)\<rparr>"

definition demo_world_ticket_update_fails :: world where
  "demo_world_ticket_update_fails =
     demo_world\<lparr>failing :=
       (\<lambda>c. if c = PasswordReset_findOneAndUpdate then Some demo_error else None)\<rparr>"

section \<open>Properties\<close>

subsection \<open>Doubles\<close>

lemma pow2_pos: "0 < pow2 e"
  by (simp add: pow2_def)

lemma pow2_add: "pow2 (a + b) = pow2 a * pow2 b"
proof -
  have "pow2 e = 2 powi e" for e
    by (simp add: pow2_def power_int_def inverse_eq_divide power_one_over)
  then show ?thesis
    by (simp add: power_int_add)
qed

lemma pow2_mono: "a \<le> b \<Longrightarrow> pow2 a \<le> pow2 b"
proof -
  have "pow2 e = 2 powi e" for e
    by (simp add: pow2_def power_int_def inverse_eq_divide power_one_over)
  then show "a \<le> b \<Longrightarrow> pow2 a \<le> pow2 b"
    by (simp add: power_int_increasing)
qed

lemma pow2_nat: "pow2 (int n) = 2 ^ n"
  by (simp add: pow2_def)

lemma exponent_le:
  assumes "0 < x"
  shows "pow2 (exponent x) \<le> x"
proof (cases "1 \<le> x")
  case True
  then have f: "0 < \<lfloor>x\<rfloor>" by linarith
  from bitlen_bounds [OF f] have "2 ^ nat (bitlen \<lfloor>x\<rfloor> - 1) \<le> \<lfloor>x\<rfloor>" by simp
  then have "(2::rat) ^ nat (bitlen \<lfloor>x\<rfloor> - 1) \<le> of_int \<lfloor>x\<rfloor>"
    by (metis of_int_le_iff of_int_numeral of_int_power)
  also have "\<dots> \<le> x" by simp
  finally have "(2::rat) ^ nat (bitlen \<lfloor>x\<rfloor> - 1) \<le> x" .
  moreover have "1 \<le> bitlen \<lfloor>x\<rfloor>" using f by (auto simp: bitlen_alt_def)
  ultimately show ?thesis using True
    by (simp add: exponent_def pow2_def)
next
  case False
  let ?c = "\<lceil>1 / x\<rceil>"
  let ?k = "bitlen (?c - 1)"
  from False assms have "1 < 1 / x" by simp
  then have c: "2 \<le> ?c" by linarith
  then have "0 < ?c - 1" by simp
  from bitlen_bounds [OF this] have "?c - 1 < 2 ^ nat ?k" by simp
  then have "?c \<le> 2 ^ nat ?k" by simp
  then have "of_int ?c \<le> (2::rat) ^ nat ?k"
    by (metis of_int_le_iff of_int_numeral of_int_power)
  moreover have "1 / x \<le> of_int ?c" by simp
  ultimately have "1 / x \<le> (2::rat) ^ nat ?k" by linarith
  then have "1 / 2 ^ nat ?k \<le> x"
    using assms by (simp add: field_simps)
  moreover have "0 \<le> ?k" by (rule bitlen_nonneg)
  ultimately show ?thesis using False
    by (cases "?k = 0") (simp_all add: exponent_def pow2_def)
qed

lemma exponent_less:
  assumes "0 < x" and "x < 2 ^ n"
  shows "exponent x < int n"
proof (rule ccontr)
  assume "\<not> exponent x < int n"
  then have "pow2 (int n) \<le> pow2 (exponent x)" by (simp add: pow2_mono)
  with exponent_le [OF assms(1)] assms(2) show False by (simp add: pow2_nat)
qed

lemma round_half_even_le: "y \<le> of_int m \<Longrightarrow> round_half_even y \<le> m"
  unfolding round_half_even_def Let_def
  by (auto; linarith)

lemma round_half_even_gt: "of_int m + 1 / 2 < y \<Longrightarrow> m < round_half_even y"
  unfolding round_half_even_def Let_def
  by (auto; linarith)

lemma round_half_even_int: "round_half_even (of_int n) = n"
  by (simp add: round_half_even_def)


lemma to_double_pos:
  assumes "0 < x"
  shows "to_double x
           = of_int (round_half_even (x / pow2 (exponent x - 52))) * pow2 (exponent x - 52)"
  using assms by (simp add: to_double_def Let_def)

lemma to_double_minus: "to_double (- x) = - to_double x"
  by (simp add: to_double_def Let_def)

lemma pow2_inverse: "pow2 e * pow2 (- e) = 1"
  using pow2_add [of e "- e"] by (simp add: pow2_def)

lemma to_double_nat_exact:
  assumes "0 < n" and "n < 2 ^ 53"
  shows "to_double (of_int n) = of_int n"
proof -
  let ?x = "of_int n :: rat"
  have pos: "0 < ?x" using assms by simp
  have "?x < 2 ^ 53" using assms(2)
    by (metis of_int_less_iff of_int_numeral of_int_power)
  from exponent_less [OF pos this] have e: "exponent ?x - 52 \<le> 0" by simp
  define k where "k = nat (- (exponent ?x - 52))"
  have pk: "pow2 (exponent ?x - 52) = 1 / 2 ^ k"
    using e by (cases "exponent ?x - 52 = 0") (simp_all add: pow2_def k_def)
  have "?x / pow2 (exponent ?x - 52) = of_int (n * 2 ^ k)"
    by (simp add: pk)
  then have "round_half_even (?x / pow2 (exponent ?x - 52)) = n * 2 ^ k"
    by (simp only: round_half_even_int)
  then show ?thesis
    by (simp add: to_double_pos [OF pos] pk)
qed

lemma to_double_int_exact:
  assumes "\<bar>n\<bar> < 2 ^ 53"
  shows "to_double (of_int n) = of_int n"
proof -
  consider "n = 0" | "0 < n" | "n < 0" by linarith
  then show ?thesis
  proof cases
    case 1
    then show ?thesis by (simp add: to_double_def)
  next
    case 2
    with assms show ?thesis by (simp add: to_double_nat_exact)
  next
    case 3
    with assms have "to_double (of_int (- n)) = of_int (- n)"
      by (intro to_double_nat_exact) simp_all
    then show ?thesis
      by (simp add: to_double_minus)
  qed
qed

lemma hours_le_iff:
  assumes "0 \<le> a" and "a < 2 ^ 53" and "0 \<le> v"
  shows "to_double (of_int a / 3600000) \<le> of_int v \<longleftrightarrow> a \<le> v * 3600000"
proof (cases "a = 0")
  case True
  with assms show ?thesis by (simp add: to_double_def)
next
  case False
  let ?q = "of_int a / 3600000 :: rat"
  have pos: "0 < ?q" using False assms by simp
  have "of_int a < (2::rat) ^ 53" using assms(2)
    by (metis of_int_less_iff of_int_numeral of_int_power)
  then have "?q < 2 ^ 32" by simp
  from exponent_less [OF pos this] have e: "exponent ?q - 52 \<le> - 21" by simp
  define k where "k = nat (- (exponent ?q - 52))"
  have k: "21 \<le> k" using e by (simp add: k_def)
  have pk: "pow2 (exponent ?q - 52) = 1 / 2 ^ k"
    using e by (simp add: pow2_def k_def)
  let ?y = "?q / pow2 (exponent ?q - 52)"
  have y: "?y = ?q * 2 ^ k" by (simp add: pk)
  have td: "to_double ?q = of_int (round_half_even ?y) / 2 ^ k"
    by (simp add: to_double_pos [OF pos] pk)
  have iff1: "to_double ?q \<le> of_int v \<longleftrightarrow> round_half_even ?y \<le> v * 2 ^ k"
  proof -
    have "to_double ?q \<le> of_int v \<longleftrightarrow> (of_int (round_half_even ?y) :: rat) \<le> of_int v * 2 ^ k"
      by (simp add: td field_simps)
    also have "of_int v * (2::rat) ^ k = of_int (v * 2 ^ k)" by simp
    finally show ?thesis by (simp only: of_int_le_iff)
  qed
  show ?thesis
  proof
    assume "a \<le> v * 3600000"
    then have "(of_int a :: rat) \<le> of_int (v * 3600000)" by (simp only: of_int_le_iff)
    then have "?q \<le> of_int v" by simp
    then have "?q * 2 ^ k \<le> of_int v * 2 ^ k" by (intro mult_right_mono) simp_all
    also have "of_int v * (2::rat) ^ k = of_int (v * 2 ^ k)" by simp
    finally have "?y \<le> of_int (v * 2 ^ k)" by (simp only: y)
    from round_half_even_le [OF this] iff1 show "to_double ?q \<le> of_int v" by simp
  next
    assume le: "to_double ?q \<le> of_int v"
    show "a \<le> v * 3600000"
    proof (rule ccontr)
      assume "\<not> a \<le> v * 3600000"
      then have "v * 3600000 + 1 \<le> a" by simp
      then have "(of_int (v * 3600000 + 1) :: rat) \<le> of_int a" by (simp only: of_int_le_iff)
      then have q: "of_int v + 1 / 3600000 \<le> ?q" by simp
      have "(2::rat) ^ 21 \<le> 2 ^ k" using k by (intro power_increasing) simp_all
      then have big: "(1800000::rat) < 2 ^ k" by simp
      have "of_int (v * 2 ^ k) + 1 / 2 < (of_int v + 1 / 3600000) * (2::rat) ^ k"
        using big by (simp add: field_simps)
      also have "\<dots> \<le> ?q * 2 ^ k" using q by (intro mult_right_mono) simp_all
      finally have "of_int (v * 2 ^ k) + 1 / 2 < ?y" by (simp only: y)
      from round_half_even_gt [OF this] iff1 le show False by simp
    qed
  qed
qed

lemma time_diff_exact:
  assumes "\<bar>now - entry_date\<bar> < 2 ^ 53" and "0 \<le> v"
  shows "time_diff now entry_date \<le> of_int v \<longleftrightarrow> \<bar>now - entry_date\<bar> \<le> v * 3600000"
proof -
  have "to_double (of_int now - of_int entry_date) = of_int (now - entry_date)"
    using to_double_int_exact [OF assms(1)] by simp
  then have "time_diff now entry_date = to_double (of_int \<bar>now - entry_date\<bar> / 3600000)"
    by (simp add: time_diff_def)
  then show ?thesis
    using hours_le_iff [of "\<bar>now - entry_date\<bar>" v] assms by simp
qed

text \<open>Two dates more than \<open>2^53\<close> milliseconds apart: the difference
  \<open>16200000000000001\<close> is rounded to \<open>16200000000000000\<close>, which is 4500000000 hours.\<close>

lemma time_diff_rounds: "time_diff 8640000000000000 (- 7560000000000001) = 4500000000"
  by code_simp

lemma time_diff_one_day: "time_diff 86400000 0 = 24"
  by code_simp

lemma time_diff_short: "time_diff 5 0 \<le> 24"
  by code_simp

subsection \<open>Database helpers\<close>


lemma find_snoc:
  "find q (xs @ [y]) = (case find q xs of Some x \<Rightarrow> Some x | None \<Rightarrow> if q y then Some y else None)"
  by (induction xs) auto

lemma find_Some_in: "find q xs = Some x \<Longrightarrow> x \<in> set xs \<and> q x"
  by (induction xs) (auto split: if_splits)

lemma resetPassword_outcome:
  "fst (resetPassword d key pw w) =
     (case crypt_hash_new d pw of
        Inl e \<Rightarrow> Thrown e
      | Inr sh \<Rightarrow>
          (case failing w User_update of
             Some e \<Rightarrow> Thrown e
           | None \<Rightarrow>
               (case failing w PasswordReset_findOneAndUpdate of
                  Some e \<Rightarrow> Thrown e
                | None \<Rightarrow> Callback None (Some True))))"
  by (simp add: resetPassword_def User_update_q_def PasswordReset_findOneAndUpdate_q_def
        logged_def Let_def split: sum.splits option.splits prod.splits)

lemma resetPassword_users:
  "users (snd (resetPassword d key pw w)) =
     (case crypt_hash_new d pw of
        Inl x \<Rightarrow> users w
      | Inr sh \<Rightarrow>
          (case failing w User_update of
             Some x \<Rightarrow> users w
           | None \<Rightarrow>
               update_first (\<lambda>u. Some (oid u) = decryptResetKey d key)
                 (\<lambda>u. u\<lparr>salt := fst sh, hash := snd sh\<rparr>) (users w)))"
  by (simp add: resetPassword_def User_update_q_def PasswordReset_findOneAndUpdate_q_def
        logged_def Let_def split: sum.splits option.splits prod.splits)

lemma resetPassword_resets:
  "resets (snd (resetPassword d key pw w)) =
     (case crypt_hash_new d pw of
        Inl x \<Rightarrow> resets w
      | Inr sh \<Rightarrow>
          (case failing w User_update of
             Some x \<Rightarrow> resets w
           | None \<Rightarrow>
               (case failing w PasswordReset_findOneAndUpdate of
                  Some x \<Rightarrow> resets w
                | None \<Rightarrow>
                    update_first (\<lambda>r. reset_key r = key) (\<lambda>r. r\<lparr>used := True\<rparr>) (resets w))))"
  by (simp add: resetPassword_def User_update_q_def PasswordReset_findOneAndUpdate_q_def
        logged_def Let_def split: sum.splits option.splits prod.splits)


lemma validateResetKey_outcome:
  "fst (validateResetKey cfg now key w) =
   validateResetKey_callback cfg now
     (case failing w PasswordReset_findOne of
        Some e \<Rightarrow> (Some e, None)
      | None \<Rightarrow> (None, find (\<lambda>r. reset_key r = key) (resets w)))"
  by (simp add: validateResetKey_def PasswordReset_findOne_q_def findOne_def
        split: option.splits prod.splits)


lemma validateResetKey_callback_none:
  "validateResetKey_callback cfg now (err, None) = Callback None (Some ''invalid_key'')"
  by (simp add: validateResetKey_callback_def)

text \<open>
  C2, at a concrete input: hashing and the user update work, the ticket update fails.
  \<open>resetPassword\<close> throws after the password has been changed, the ticket is still
  unused, and \<open>validateResetKey\<close> of the same key reports \<open>success\<close>.
\<close>

theorem reset_ticket_single_use_counterexample:
  "fst (resetPassword demo_deps ''k'' ''pw'' demo_world_ticket_update_fails) = Thrown demo_error
   \<and> users (snd (resetPassword demo_deps ''k'' ''pw'' demo_world_ticket_update_fails))
       = [demo_user\<lparr>salt := ''t'', hash := ''pwt''\<rparr>]
   \<and> resets (snd (resetPassword demo_deps ''k'' ''pw'' demo_world_ticket_update_fails))
       = [demo_ticket]
   \<and> fst (validateResetKey demo_config 5 ''k''
            (snd (resetPassword demo_deps ''k'' ''pw'' demo_world_ticket_update_fails)))
       = Callback None (Some ''success'')"
proof -
  let ?w' = "snd (resetPassword demo_deps ''k'' ''pw'' demo_world_ticket_update_fails)"
  have o: "fst (resetPassword demo_deps ''k'' ''pw'' demo_world_ticket_update_fails)
             = Thrown demo_error"
    by (simp add: resetPassword_outcome demo_deps_def demo_world_ticket_update_fails_def)
  have u: "users ?w' = [demo_user\<lparr>salt := ''t'', hash := ''pwt''\<rparr>]"
    by (simp add: resetPassword_users demo_deps_def demo_world_ticket_update_fails_def
          demo_world_def demo_user_def)
  have r: "resets ?w' = [demo_ticket]"
    by (simp add: resetPassword_resets demo_deps_def demo_world_ticket_update_fails_def
          demo_world_def)
  have f: "failing ?w' PasswordReset_findOne = None"
    by (simp add: resetPassword_def User_update_q_def PasswordReset_findOneAndUpdate_q_def
          logged_def demo_deps_def demo_world_ticket_update_fails_def)
  have v: "fst (validateResetKey demo_config 5 ''k'' ?w') = Callback None (Some ''success'')"
    using time_diff_short
    by (simp add: validateResetKey_outcome f r validateResetKey_callback_def demo_ticket_def
          demo_config_def)
  show ?thesis using o u r v by simp
qed



text \<open>
  C3. \<open>validateResetKey\<close> reports \<open>invalid_key\<close> when no ticket has the key. For an
  unused ticket handed to its callback it reports \<open>success\<close> exactly when the distance
  between the current time and the ticket's date, divided by \<open>36e5\<close> as the source
  computes it, is at most \<open>RESET_VALIDITY\<close>, and \<open>failure\<close> exactly when it is more.
  For two dates less than \<open>2^53\<close> milliseconds apart and a validity of \<open>v\<close> whole
  hours this is the exact test: \<open>success\<close> exactly when the distance in milliseconds
  is at most \<open>v * 3600000\<close>. The ticket handed to the callback is the first one with
  the key.
\<close>

theorem reset_key_expiry:
  "((\<forall>r\<in>set (resets w). reset_key r \<noteq> key) \<longrightarrow>
      fst (validateResetKey cfg now key w) = Callback None (Some ''invalid_key''))
   \<and> (\<not> used e \<longrightarrow>
        (validateResetKey_callback cfg now (err, Some e) = Callback None (Some ''success'')
           \<longleftrightarrow> time_diff now (date e) \<le> RESET_VALIDITY cfg)
        \<and> (validateResetKey_callback cfg now (err, Some e) = Callback None (Some ''failure'')
           \<longleftrightarrow> \<not> time_diff now (date e) \<le> RESET_VALIDITY cfg))
   \<and> (\<not> used e \<and> \<bar>now - date e\<bar> < 2 ^ 53 \<and> 0 \<le> v \<and> RESET_VALIDITY cfg = of_int v \<longrightarrow>
        (validateResetKey_callback cfg now (err, Some e) = Callback None (Some ''success'')
           \<longleftrightarrow> \<bar>now - date e\<bar> \<le> v * 3600000)
        \<and> (validateResetKey_callback cfg now (err, Some e) = Callback None (Some ''failure'')
           \<longleftrightarrow> v * 3600000 < \<bar>now - date e\<bar>))
   \<and> (failing w PasswordReset_findOne = None
        \<and> find (\<lambda>r. reset_key r = key) (resets w) = Some e \<longrightarrow>
        fst (validateResetKey cfg now key w) = validateResetKey_callback cfg now (None, Some e))"
proof -
  have none: "(\<forall>r\<in>set (resets w). reset_key r \<noteq> key) \<longrightarrow>
      fst (validateResetKey cfg now key w) = Callback None (Some ''invalid_key'')"
  proof
    assume "\<forall>r\<in>set (resets w). reset_key r \<noteq> key"
    then have "find (\<lambda>r. reset_key r = key) (resets w) = None"
      by (simp add: find_None_iff)
    then show "fst (validateResetKey cfg now key w) = Callback None (Some ''invalid_key'')"
      by (simp add: validateResetKey_outcome validateResetKey_callback_none split: option.splits)
  qed
  have test: "(validateResetKey_callback cfg now (err, Some e) = Callback None (Some ''success'')
           \<longleftrightarrow> time_diff now (date e) \<le> RESET_VALIDITY cfg)
        \<and> (validateResetKey_callback cfg now (err, Some e) = Callback None (Some ''failure'')
           \<longleftrightarrow> \<not> time_diff now (date e) \<le> RESET_VALIDITY cfg)"
    if "\<not> used e"
    using that by (simp add: validateResetKey_callback_def Let_def)
  have exact: "(validateResetKey_callback cfg now (err, Some e) = Callback None (Some ''success'')
           \<longleftrightarrow> \<bar>now - date e\<bar> \<le> v * 3600000)
        \<and> (validateResetKey_callback cfg now (err, Some e) = Callback None (Some ''failure'')
           \<longleftrightarrow> v * 3600000 < \<bar>now - date e\<bar>)"
    if h: "\<not> used e \<and> \<bar>now - date e\<bar> < 2 ^ 53 \<and> 0 \<le> v \<and> RESET_VALIDITY cfg = of_int v"
  proof -
    from h have "time_diff now (date e) \<le> RESET_VALIDITY cfg \<longleftrightarrow> \<bar>now - date e\<bar> \<le> v * 3600000"
      by (simp add: time_diff_exact)
    with test h show ?thesis by auto
  qed
  have first: "failing w PasswordReset_findOne = None
        \<and> find (\<lambda>r. reset_key r = key) (resets w) = Some e \<longrightarrow>
        fst (validateResetKey cfg now key w) = validateResetKey_callback cfg now (None, Some e)"
    by (simp add: validateResetKey_outcome)
  show ?thesis
    using none test exact first by blast
qed

theorem reset_key_expiry_witness:
  "fst (validateResetKey demo_config 5 ''zz'' demo_world) = Callback None (Some ''invalid_key'')
   \<and> validateResetKey_callback demo_config (24 * 3600000) (None, Some demo_ticket)
       = Callback None (Some ''success'')
   \<and> validateResetKey_callback demo_config (24 * 3600000 + 1) (None, Some demo_ticket)
       = Callback None (Some ''failure'')
   \<and> validateResetKey_callback demo_config 5 (None, Some demo_ticket)
       = Callback None (Some ''success'')
   \<and> fst (validateResetKey demo_config (24 * 3600000) ''k'' demo_world)
       = Callback None (Some ''success'')"
proof -
  have a: "\<forall>r\<in>set (resets demo_world). reset_key r \<noteq> ''zz''"
    by (simp add: demo_world_def demo_ticket_def)
  have b: "\<not> used demo_ticket" by (simp add: demo_ticket_def)
  have c: "failing demo_world PasswordReset_findOne = None
        \<and> find (\<lambda>r. reset_key r = ''k'') (resets demo_world) = Some demo_ticket"
    by (simp add: demo_world_def demo_ticket_def)
  have v: "(0::int) \<le> 24" "RESET_VALIDITY demo_config = of_int 24"
    by (simp_all add: demo_config_def)
  have d1: "\<bar>24 * 3600000 - date demo_ticket\<bar> < 2 ^ 53"
    "\<bar>24 * 3600000 - date demo_ticket\<bar> \<le> 24 * 3600000"
    by (simp_all add: demo_ticket_def)
  have d2: "\<bar>24 * 3600000 + 1 - date demo_ticket\<bar> < 2 ^ 53"
    "24 * 3600000 < \<bar>24 * 3600000 + 1 - date demo_ticket\<bar>"
    by (simp_all add: demo_ticket_def)
  have d3: "time_diff 5 (date demo_ticket) \<le> RESET_VALIDITY demo_config"
    using time_diff_short by (simp add: demo_ticket_def demo_config_def)
  have i1: "fst (validateResetKey demo_config 5 ''zz'' demo_world)
              = Callback None (Some ''invalid_key'')"
    using reset_key_expiry [where w = demo_world and key = "''zz''" and cfg = demo_config
         and now = 5 and e = demo_ticket and err = None] a by blast
  have i2: "validateResetKey_callback demo_config (24 * 3600000) (None, Some demo_ticket)
              = Callback None (Some ''success'')"
    using reset_key_expiry [where w = demo_world and key = "''k''" and cfg = demo_config
         and now = "24 * 3600000" and e = demo_ticket and err = None and v = 24] b v d1
    by blast
  have i3: "validateResetKey_callback demo_config (24 * 3600000 + 1) (None, Some demo_ticket)
              = Callback None (Some ''failure'')"
    using reset_key_expiry [where w = demo_world and key = "''k''" and cfg = demo_config
         and now = "24 * 3600000 + 1" and e = demo_ticket and err = None and v = 24] b v d2
    by blast
  have i4: "validateResetKey_callback demo_config 5 (None, Some demo_ticket)
              = Callback None (Some ''success'')"
    using reset_key_expiry [where w = demo_world and key = "''k''" and cfg = demo_config
         and now = 5 and e = demo_ticket and err = None] b d3
    by blast
  have i5: "fst (validateResetKey demo_config (24 * 3600000) ''k'' demo_world)
              = validateResetKey_callback demo_config (24 * 3600000) (None, Some demo_ticket)"
    using reset_key_expiry [where w = demo_world and key = "''k''" and cfg = demo_config
         and now = "24 * 3600000" and e = demo_ticket and err = None] c by blast
  show ?thesis
    using i1 i2 i3 i4 i5 by simp
qed

text \<open>
  C8. \<open>validateResetKey\<close> always calls back with a null error and one of the four
  status strings, whatever the lookup replies; a lookup that fails and returns no entry
  is reported as \<open>invalid_key\<close>.
\<close>

theorem validateResetKey_status:
  "(\<exists>s\<in>{''used'', ''success'', ''failure'', ''invalid_key''}.
      validateResetKey_callback cfg now (err, entry) = Callback None (Some s))
   \<and> (\<exists>s\<in>{''used'', ''success'', ''failure'', ''invalid_key''}.
      fst (validateResetKey cfg now key w) = Callback None (Some s))
   \<and> validateResetKey_callback cfg now (Some e, None) = Callback None (Some ''invalid_key'')
   \<and> (failing w PasswordReset_findOne = Some e \<longrightarrow>
        fst (validateResetKey cfg now key w) = Callback None (Some ''invalid_key''))"
proof -
  have cb: "\<exists>s\<in>{''used'', ''success'', ''failure'', ''invalid_key''}.
      validateResetKey_callback cfg now rep = Callback None (Some s)" for rep
    by (cases rep) (simp add: validateResetKey_callback_def Let_def split: option.splits)
  have fails: "failing w PasswordReset_findOne = Some e \<longrightarrow>
        fst (validateResetKey cfg now key w) = Callback None (Some ''invalid_key'')"
    by (simp add: validateResetKey_outcome validateResetKey_callback_none)
  show ?thesis
    using cb [of "(err, entry)"] cb fails
    by (simp only: validateResetKey_outcome validateResetKey_callback_none simp_thms)
qed

theorem validateResetKey_status_witness:
  "fst (validateResetKey demo_config 5 ''k''
          (demo_world\<lparr>failing := (\<lambda>c. Some demo_error)\<rparr>)) = Callback None (Some ''invalid_key'')
   \<and> fst (validateResetKey demo_config 5 ''k'' demo_world) = Callback None (Some ''success'')"
proof -
  have f: "failing (demo_world\<lparr>failing := (\<lambda>c. Some demo_error)\<rparr>) PasswordReset_findOne
             = Some demo_error"
    by simp
  have a: "fst (validateResetKey demo_config 5 ''k''
          (demo_world\<lparr>failing := (\<lambda>c. Some demo_error)\<rparr>)) = Callback None (Some ''invalid_key'')"
    using validateResetKey_status [where w = "demo_world\<lparr>failing := (\<lambda>c. Some demo_error)\<rparr>"
        and e = demo_error and cfg = demo_config and now = 5 and key = "''k''"] f
    by blast
  have b: "fst (validateResetKey demo_config 5 ''k'' demo_world) = Callback None (Some ''success'')"
    using time_diff_short
    by (simp add: validateResetKey_outcome validateResetKey_callback_def demo_world_def
          demo_ticket_def demo_config_def)
  show ?thesis using a b by simp
qed

text \<open>
  C10. \<open>getUnreadFeedbackCount\<close> always calls back with a null error and a natural
  number: the number of feedback documents dated at or after \<open>last_seen\<close> when the
  count succeeds, and 0 when the database fails or replies without a count.
\<close>

theorem getUnreadFeedbackCount_total:
  "(\<exists>n. getUnreadFeedbackCount_callback (err, cnt) = Callback None (Some n))
   \<and> (\<exists>n. fst (getUnreadFeedbackCount seen w) = Callback None (Some n))
   \<and> getUnreadFeedbackCount_callback (err, None) = Callback None (Some 0)
   \<and> (failing w Feedback_count = Some e \<longrightarrow>
        fst (getUnreadFeedbackCount seen w) = Callback None (Some 0))
   \<and> (failing w Feedback_count = None \<longrightarrow>
        fst (getUnreadFeedbackCount seen w)
          = Callback None (Some (length (filter (\<lambda>f. seen \<le> fb_date f) (feedbacks w)))))"
  by (simp add: getUnreadFeedbackCount_def getUnreadFeedbackCount_callback_def
        Feedback_count_q_def count_docs_def split: option.splits)

theorem getUnreadFeedbackCount_total_witness:
  "fst (getUnreadFeedbackCount 10
          (demo_world\<lparr>feedbacks := [demo_feedback 9, demo_feedback 10, demo_feedback 11],
                      failing := (\<lambda>c. Some demo_error)\<rparr>)) = Callback None (Some 0)
   \<and> fst (getUnreadFeedbackCount 10
          (demo_world\<lparr>feedbacks := [demo_feedback 9, demo_feedback 10, demo_feedback 11]\<rparr>))
       = Callback None (Some 2)"
proof -
  let ?w = "demo_world\<lparr>feedbacks := [demo_feedback 9, demo_feedback 10, demo_feedback 11]\<rparr>"
  have f: "failing (?w\<lparr>failing := (\<lambda>c. Some demo_error)\<rparr>) Feedback_count = Some demo_error"
    by simp
  have g: "failing ?w Feedback_count = None"
    by (simp add: demo_world_def)
  have a: "fst (getUnreadFeedbackCount 10 (?w\<lparr>failing := (\<lambda>c. Some demo_error)\<rparr>))
             = Callback None (Some 0)"
    using getUnreadFeedbackCount_total [where w = "?w\<lparr>failing := (\<lambda>c. Some demo_error)\<rparr>"
        and e = demo_error and seen = 10] f by blast
  have b: "fst (getUnreadFeedbackCount 10 ?w)
             = Callback None (Some (length (filter (\<lambda>f. 10 \<le> fb_date f) (feedbacks ?w))))"
    using getUnreadFeedbackCount_total [where w = ?w and seen = 10] g by blast
  show ?thesis using a b by (simp add: demo_feedback_def)
qed

subsection \<open>Authentication\<close>


lemma findOrCreateLDAPUser_Callback:
  "\<exists>e u. fst (findOrCreateLDAPUser cfg d nm w) = Callback e u"
  by (simp add: findOrCreateLDAPUser_def isUsernameValid_def User_findOne_q_def findOne_def
        User_save_doc_def logged_def Let_def split: option.splits)






text \<open>
  C6. With \<open>AUTH_USE_LDAP\<close> set, an LDAP error is classified by its name:
  \<open>ConnectionError\<close> gives \<open>ERR_AUTH_LDAP_SERVER_DOWN\<close>, \<open>InvalidCredentialsError\<close>
  gives \<open>ERR_AUTH_FAILED\<close>, every other name gives \<open>ERR_AUTH_LDAP_ERROR\<close>; without an
  error the callback gets a null error and the user of \<open>findOrCreateLDAPUser\<close>.
\<close>

theorem authenticate_ldap_errors:
  assumes "AUTH_USE_LDAP cfg"
  shows "(ldap_authenticate d nm pass = Some err \<longrightarrow>
            fst (authenticate cfg d nm pass w)
              = Callback (Some (new_Error
                  (if name err = ''ConnectionError'' then ERR_AUTH_LDAP_SERVER_DOWN cfg
                   else if name err = ''InvalidCredentialsError'' then ERR_AUTH_FAILED cfg
                   else ERR_AUTH_LDAP_ERROR cfg))) None)
       \<and> (ldap_authenticate d nm pass = None \<longrightarrow>
            (\<exists>e u w'. findOrCreateLDAPUser cfg d nm (logged LDAP_authenticate w)
                         = (Callback e u, w')
                     \<and> authenticate cfg d nm pass w = (Callback None u, w')))"
proof (intro conjI impI)
  assume "ldap_authenticate d nm pass = Some err"
  with assms show "fst (authenticate cfg d nm pass w)
              = Callback (Some (new_Error
                  (if name err = ''ConnectionError'' then ERR_AUTH_LDAP_SERVER_DOWN cfg
                   else if name err = ''InvalidCredentialsError'' then ERR_AUTH_FAILED cfg
                   else ERR_AUTH_LDAP_ERROR cfg))) None"
    by (simp add: authenticate_def Let_def)
next
  assume none: "ldap_authenticate d nm pass = None"
  obtain e u where "fst (findOrCreateLDAPUser cfg d nm (logged LDAP_authenticate w)) = Callback e u"
    using findOrCreateLDAPUser_Callback by blast
  then obtain w' where f: "findOrCreateLDAPUser cfg d nm (logged LDAP_authenticate w)
                         = (Callback e u, w')"
    by (cases "findOrCreateLDAPUser cfg d nm (logged LDAP_authenticate w)") simp
  with assms none have "authenticate cfg d nm pass w = (Callback None u, w')"
    by (simp add: authenticate_def Let_def)
  with f show "\<exists>e u w'. findOrCreateLDAPUser cfg d nm (logged LDAP_authenticate w)
                         = (Callback e u, w')
                     \<and> authenticate cfg d nm pass w = (Callback None u, w')"
    by blast
qed

theorem authenticate_ldap_errors_witness:
  "fst (authenticate demo_config_ldap (demo_deps_ldap_error ''ConnectionError'') ''alice'' ''pw''
          demo_world) = Callback (Some (new_Error ''ldap down'')) None
   \<and> fst (authenticate demo_config_ldap (demo_deps_ldap_error ''InvalidCredentialsError'')
            ''alice'' ''pw'' demo_world) = Callback (Some (new_Error ''auth failed'')) None
   \<and> fst (authenticate demo_config_ldap (demo_deps_ldap_error ''TimeoutError'')
            ''alice'' ''pw'' demo_world) = Callback (Some (new_Error ''ldap error'')) None
   \<and> fst (authenticate demo_config_ldap demo_deps ''alice'' ''pw'' demo_world)
       = Callback None (Some demo_user)"
proof -
  have a: "AUTH_USE_LDAP demo_config_ldap"
    by (simp add: demo_config_ldap_def)
  have e: "ldap_authenticate (demo_deps_ldap_error n) ''alice'' ''pw''
             = Some \<lparr>name = n, message = ''ldap''\<rparr>" for n
    by (simp add: demo_deps_ldap_error_def)
  have n: "ldap_authenticate demo_deps ''alice'' ''pw'' = None"
    by (simp add: demo_deps_def)
  have f: "findOrCreateLDAPUser demo_config_ldap demo_deps ''alice''
             (logged LDAP_authenticate demo_world)
           = (Callback None (Some demo_user),
              demo_world\<lparr>calls := [LDAP_authenticate, User_findOne, User_findOne]\<rparr>)"
    by (simp add: findOrCreateLDAPUser_def isUsernameValid_def User_findOne_q_def findOne_def
          logged_def demo_world_def demo_user_def toLowerCase_def is_ascii_def lower_char_def)
  have i1: "fst (authenticate demo_config_ldap (demo_deps_ldap_error ''ConnectionError'')
                  ''alice'' ''pw'' demo_world) = Callback (Some (new_Error ''ldap down'')) None"
    using authenticate_ldap_errors [OF a, of "demo_deps_ldap_error ''ConnectionError''"
        "''alice''" "''pw''" "\<lparr>name = ''ConnectionError'', message = ''ldap''\<rparr>" demo_world] e
    by (simp add: demo_config_ldap_def demo_config_def)
  have i2: "fst (authenticate demo_config_ldap (demo_deps_ldap_error ''InvalidCredentialsError'')
                  ''alice'' ''pw'' demo_world) = Callback (Some (new_Error ''auth failed'')) None"
    using authenticate_ldap_errors [OF a, of "demo_deps_ldap_error ''InvalidCredentialsError''"
        "''alice''" "''pw''" "\<lparr>name = ''InvalidCredentialsError'', message = ''ldap''\<rparr>"
        demo_world] e
    by (simp add: demo_config_ldap_def demo_config_def)
  have i3: "fst (authenticate demo_config_ldap (demo_deps_ldap_error ''TimeoutError'')
                  ''alice'' ''pw'' demo_world) = Callback (Some (new_Error ''ldap error'')) None"
    using authenticate_ldap_errors [OF a, of "demo_deps_ldap_error ''TimeoutError''"
        "''alice''" "''pw''" "\<lparr>name = ''TimeoutError'', message = ''ldap''\<rparr>" demo_world] e
    by (simp add: demo_config_ldap_def demo_config_def)
  have i4: "fst (authenticate demo_config_ldap demo_deps ''alice'' ''pw'' demo_world)
              = Callback None (Some demo_user)"
    using authenticate_ldap_errors [OF a, of demo_deps "''alice''" "''pw''" _ demo_world] n f
    by auto
  show ?thesis using i1 i2 i3 i4 by simp
qed

text \<open>
  C4, at a concrete input: the user exists and is activated, the hashing helper reports
  an error. The callback gets that error, which is neither the user nor one of the three
  configured errors.
\<close>

theorem authenticate_local_counterexample:
  "\<not> AUTH_USE_LDAP demo_config
   \<and> fst (authenticate demo_config demo_deps_hash_fails ''alice'' ''pw'' demo_world)
       = Callback (Some demo_hash_error) None
   \<and> fst (authenticate demo_config demo_deps_hash_fails ''alice'' ''pw'' demo_world)
       \<notin> {Callback None (Some demo_user),
          Callback (Some (new_Error (ERR_AUTH_INVALID_USERNAME demo_config))) None,
          Callback (Some (new_Error (ERR_AUTH_ACTIVATION_PENDING demo_config))) None,
          Callback (Some (new_Error (ERR_AUTH_INVALID_PASSWORD demo_config))) None}"
  by (simp add: authenticate_def demo_config_def demo_deps_hash_fails_def demo_deps_def
        demo_world_def demo_user_def demo_hash_error_def new_Error_def User_findOne_q_def
        findOne_def logged_def toLowerCase_def is_ascii_def lower_char_def)

text \<open>
  C4, amended. With \<open>AUTH_USE_LDAP\<close> unset, let \<open>found\<close> be the record the lookup by the
  lowercased username returns. \<open>authenticate\<close> yields a user exactly when \<open>found\<close> is
  that user, it is activated and hashing the password with its salt succeeds with its
  stored hash. Otherwise it yields: invalid username when nothing is found, activation
  pending when the record is not activated, invalid password when hashing succeeds with
  another hash, and the hashing error itself when hashing fails.
\<close>

theorem authenticate_local:
  assumes "\<not> AUTH_USE_LDAP cfg"
    and "snd (fst (User_findOne_q (\<lambda>u. username u = toLowerCase d nm) w)) = found"
  shows "(fst (authenticate cfg d nm pass w) = Callback None (Some u)
            \<longleftrightarrow> found = Some u \<and> activated u \<and> crypt_hash d pass (salt u) = Inr (hash u))
       \<and> (found = None \<longrightarrow>
            fst (authenticate cfg d nm pass w)
              = Callback (Some (new_Error (ERR_AUTH_INVALID_USERNAME cfg))) None)
       \<and> (found = Some u \<and> \<not> activated u \<longrightarrow>
            fst (authenticate cfg d nm pass w)
              = Callback (Some (new_Error (ERR_AUTH_ACTIVATION_PENDING cfg))) None)
       \<and> (found = Some u \<and> activated u \<and> crypt_hash d pass (salt u) = Inr h \<and> h \<noteq> hash u \<longrightarrow>
            fst (authenticate cfg d nm pass w)
              = Callback (Some (new_Error (ERR_AUTH_INVALID_PASSWORD cfg))) None)
       \<and> (found = Some u \<and> activated u \<and> crypt_hash d pass (salt u) = Inl e \<longrightarrow>
            fst (authenticate cfg d nm pass w) = Callback (Some e) None)"
  using assms
  by (auto simp: authenticate_def User_findOne_q_def findOne_def Let_def
        split: option.splits sum.splits)

theorem authenticate_local_witness:
  "fst (authenticate demo_config demo_deps ''Alice'' ''pw'' demo_world)
     = Callback None (Some demo_user)
   \<and> fst (authenticate demo_config demo_deps ''bob'' ''pw'' demo_world)
       = Callback (Some (new_Error ''invalid username'')) None
   \<and> fst (authenticate demo_config demo_deps ''alice'' ''pw''
            (demo_world\<lparr>users := [demo_user\<lparr>activated := False\<rparr>]\<rparr>))
       = Callback (Some (new_Error ''activation pending'')) None
   \<and> fst (authenticate demo_config demo_deps ''alice'' ''wrong'' demo_world)
       = Callback (Some (new_Error ''invalid password'')) None
   \<and> fst (authenticate demo_config demo_deps_hash_fails ''alice'' ''pw'' demo_world)
       = Callback (Some demo_hash_error) None"
proof -
  have c: "\<not> AUTH_USE_LDAP demo_config"
    by (simp add: demo_config_def)
  have fa: "snd (fst (User_findOne_q (\<lambda>u. username u = toLowerCase d nm) demo_world))
              = (if toLowerCase d nm = ''alice'' then Some demo_user else None)" for nm d
    by (simp add: User_findOne_q_def findOne_def demo_world_def demo_user_def)
  have la: "toLowerCase d ''Alice'' = ''alice''" "toLowerCase d ''alice'' = ''alice''"
    "toLowerCase d ''bob'' = ''bob''" for d
    by (simp_all add: toLowerCase_def is_ascii_def lower_char_def)
  have fp: "snd (fst (User_findOne_q (\<lambda>u. username u = toLowerCase demo_deps ''alice'')
                     (demo_world\<lparr>users := [demo_user\<lparr>activated := False\<rparr>]\<rparr>)))
              = Some (demo_user\<lparr>activated := False\<rparr>)"
    by (simp add: User_findOne_q_def findOne_def demo_world_def demo_user_def la)
  have i1: "fst (authenticate demo_config demo_deps ''Alice'' ''pw'' demo_world)
              = Callback None (Some demo_user)"
    using authenticate_local [where nm = "''Alice''" and d = demo_deps and pass = "''pw''"
        and u = demo_user, OF c fa]
    by (simp add: la demo_user_def demo_deps_def)
  have i2: "fst (authenticate demo_config demo_deps ''bob'' ''pw'' demo_world)
              = Callback (Some (new_Error ''invalid username'')) None"
    using authenticate_local [where nm = "''bob''" and d = demo_deps and pass = "''pw''", OF c fa]
    by (simp add: la demo_config_def)
  have i3: "fst (authenticate demo_config demo_deps ''alice'' ''pw''
                  (demo_world\<lparr>users := [demo_user\<lparr>activated := False\<rparr>]\<rparr>))
              = Callback (Some (new_Error ''activation pending'')) None"
    using authenticate_local [where d = demo_deps and pass = "''pw''"
        and u = "demo_user\<lparr>activated := False\<rparr>", OF c fp]
    by (simp add: demo_config_def)
  have i4: "fst (authenticate demo_config demo_deps ''alice'' ''wrong'' demo_world)
              = Callback (Some (new_Error ''invalid password'')) None"
    using authenticate_local [where nm = "''alice''" and d = demo_deps and pass = "''wrong''"
        and u = demo_user and h = "''wrongs''", OF c fa]
    by (simp add: la demo_user_def demo_deps_def demo_config_def)
  have i5: "fst (authenticate demo_config demo_deps_hash_fails ''alice'' ''pw'' demo_world)
              = Callback (Some demo_hash_error) None"
    using authenticate_local [where nm = "''alice''" and d = demo_deps_hash_fails
        and pass = "''pw''" and u = demo_user and e = demo_hash_error, OF c fa]
    by (simp add: la demo_user_def demo_deps_hash_fails_def)
  show ?thesis using i1 i2 i3 i4 i5 by simp
qed

subsection \<open>User records of LDAP logins\<close>

lemma findOrCreateLDAPUser_works:
  assumes "failing w User_findOne = None" and "failing w User_save = None"
  shows "findOrCreateLDAPUser cfg d nm w =
     (case find (\<lambda>u. username u = toLowerCase d nm) (users w) of
        Some x \<Rightarrow> (Callback None (Some x), w\<lparr>calls := calls w @ [User_findOne, User_findOne]\<rparr>)
      | None \<Rightarrow>
          (Callback None (Some ((User_defaults d)\<lparr>username := nm, oid := fresh_oid w\<rparr>)),
           w\<lparr>users := users w @ [(User_defaults d)\<lparr>username := nm, oid := fresh_oid w\<rparr>],
             calls := calls w @ [User_findOne, User_save]\<rparr>))"
  using assms
  by (simp add: findOrCreateLDAPUser_def isUsernameValid_def User_findOne_q_def findOne_def
        User_save_doc_def logged_def fresh_oid_def Let_def split: option.splits)

text \<open>
  C9. \<open>findOrCreateLDAPUser\<close> looks the user up by the lowercased name and stores a new
  record under the name as given. With a working database: for a name equal to its
  lowercase form a second call returns the same existing record and leaves the users
  unchanged; for a name that differs from its lowercase form, such as \<open>Bob\<close>, every call
  on a world without a record under the lowercase name appends a record under the name
  as given, and the world after it is again without a record under the lowercase name.
\<close>

theorem findOrCreateLDAPUser_idempotent_lowercase_only:
  "(toLowerCase d nm = nm \<and> failing w User_findOne = None \<and> failing w User_save = None \<longrightarrow>
      users (snd (findOrCreateLDAPUser cfg d nm (snd (findOrCreateLDAPUser cfg d nm w))))
        = users (snd (findOrCreateLDAPUser cfg d nm w))
      \<and> fst (findOrCreateLDAPUser cfg d nm (snd (findOrCreateLDAPUser cfg d nm w)))
        = fst (findOrCreateLDAPUser cfg d nm w)
      \<and> (\<exists>x\<in>set (users (snd (findOrCreateLDAPUser cfg d nm w))). username x = nm
            \<and> fst (findOrCreateLDAPUser cfg d nm (snd (findOrCreateLDAPUser cfg d nm w)))
                = Callback None (Some x)))
   \<and> (toLowerCase d nm \<noteq> nm \<and> failing w User_findOne = None \<and> failing w User_save = None
        \<and> (\<forall>x\<in>set (users w). username x \<noteq> toLowerCase d nm) \<longrightarrow>
      (\<exists>new_user. username new_user = nm
         \<and> users (snd (findOrCreateLDAPUser cfg d nm w)) = users w @ [new_user])
      \<and> failing (snd (findOrCreateLDAPUser cfg d nm w)) = failing w
      \<and> (\<forall>x\<in>set (users (snd (findOrCreateLDAPUser cfg d nm w))). username x \<noteq> toLowerCase d nm))
   \<and> toLowerCase d ''Bob'' \<noteq> ''Bob''"
proof (intro conjI impI)
  assume a: "toLowerCase d nm = nm \<and> failing w User_findOne = None \<and> failing w User_save = None"
  let ?q = "\<lambda>u. username u = toLowerCase d nm"
  let ?new = "(User_defaults d)\<lparr>username := nm, oid := fresh_oid w\<rparr>"
  let ?w1 = "snd (findOrCreateLDAPUser cfg d nm w)"
  have f1: "failing ?w1 User_findOne = None" "failing ?w1 User_save = None"
    using a by (simp_all add: findOrCreateLDAPUser_works split: option.splits)
  have found: "\<exists>x. find ?q (users ?w1) = Some x \<and> fst (findOrCreateLDAPUser cfg d nm w) = Callback None (Some x)"
    using a by (simp add: findOrCreateLDAPUser_works find_snoc split: option.splits)
  then obtain x where x: "find ?q (users ?w1) = Some x"
    "fst (findOrCreateLDAPUser cfg d nm w) = Callback None (Some x)"
    by blast
  have second: "findOrCreateLDAPUser cfg d nm ?w1
      = (Callback None (Some x), ?w1\<lparr>calls := calls ?w1 @ [User_findOne, User_findOne]\<rparr>)"
    using x by (simp add: findOrCreateLDAPUser_works [OF f1])
  show "users (snd (findOrCreateLDAPUser cfg d nm ?w1)) = users ?w1"
    by (simp add: second)
  show "fst (findOrCreateLDAPUser cfg d nm ?w1) = fst (findOrCreateLDAPUser cfg d nm w)"
    by (simp add: second x)
  show "\<exists>x\<in>set (users ?w1). username x = nm
            \<and> fst (findOrCreateLDAPUser cfg d nm ?w1) = Callback None (Some x)"
    using find_Some_in [OF x(1)] a by (auto simp: second)
next
  assume b: "toLowerCase d nm \<noteq> nm \<and> failing w User_findOne = None \<and> failing w User_save = None
        \<and> (\<forall>x\<in>set (users w). username x \<noteq> toLowerCase d nm)"
  then have none: "find (\<lambda>u. username u = toLowerCase d nm) (users w) = None"
    by (simp add: find_None_iff)
  show "\<exists>new_user. username new_user = nm
         \<and> users (snd (findOrCreateLDAPUser cfg d nm w)) = users w @ [new_user]"
    using b none by (simp add: findOrCreateLDAPUser_works)
  show "failing (snd (findOrCreateLDAPUser cfg d nm w)) = failing w"
    using b none by (simp add: findOrCreateLDAPUser_works)
  show "\<forall>x\<in>set (users (snd (findOrCreateLDAPUser cfg d nm w))). username x \<noteq> toLowerCase d nm"
    using b none by (auto simp: findOrCreateLDAPUser_works)
next
  show "toLowerCase d ''Bob'' \<noteq> ''Bob''"
    by (simp add: toLowerCase_def is_ascii_def lower_char_def)
qed


theorem findOrCreateLDAPUser_idempotent_lowercase_only_witness:
  "users (snd (findOrCreateLDAPUser demo_config_ldap demo_deps ''carol''
                 (snd (findOrCreateLDAPUser demo_config_ldap demo_deps ''carol'' demo_world))))
     = users (snd (findOrCreateLDAPUser demo_config_ldap demo_deps ''carol'' demo_world))
   \<and> length (users (snd (findOrCreateLDAPUser demo_config_ldap demo_deps ''Bob'' demo_world))) = 2
   \<and> length (users (snd (findOrCreateLDAPUser demo_config_ldap demo_deps ''Bob''
                 (snd (findOrCreateLDAPUser demo_config_ldap demo_deps ''Bob'' demo_world))))) = 3"
proof -
  let ?w1 = "snd (findOrCreateLDAPUser demo_config_ldap demo_deps ''Bob'' demo_world)"
  have lc: "toLowerCase demo_deps ''carol'' = ''carol''" and lb: "toLowerCase demo_deps ''Bob'' = ''bob''"
    by (simp_all add: toLowerCase_def is_ascii_def lower_char_def)
  have ok: "failing demo_world User_findOne = None" "failing demo_world User_save = None"
    by (simp_all add: demo_world_def)
  have nobob: "\<forall>x\<in>set (users demo_world). username x \<noteq> toLowerCase demo_deps ''Bob''"
    by (simp add: lb demo_world_def demo_user_def)
  have n: "length (users demo_world) = 1"
    by (simp add: demo_world_def)
  have i1: "users (snd (findOrCreateLDAPUser demo_config_ldap demo_deps ''carol''
                 (snd (findOrCreateLDAPUser demo_config_ldap demo_deps ''carol'' demo_world))))
     = users (snd (findOrCreateLDAPUser demo_config_ldap demo_deps ''carol'' demo_world))"
    using findOrCreateLDAPUser_idempotent_lowercase_only [where nm = "''carol''"
        and w = demo_world and cfg = demo_config_ldap and d = demo_deps] lc ok
    by blast
  have first: "(\<exists>new_user. username new_user = ''Bob'' \<and> users ?w1 = users demo_world @ [new_user])
      \<and> failing ?w1 = failing demo_world
      \<and> (\<forall>x\<in>set (users ?w1). username x \<noteq> toLowerCase demo_deps ''Bob'')"
    using findOrCreateLDAPUser_idempotent_lowercase_only [where nm = "''Bob''"
        and w = demo_world and cfg = demo_config_ldap and d = demo_deps] lb ok nobob
    by simp
  then have i2: "length (users ?w1) = 2"
    using n by auto
  have "\<exists>new_user. username new_user = ''Bob''
          \<and> users (snd (findOrCreateLDAPUser demo_config_ldap demo_deps ''Bob'' ?w1))
              = users ?w1 @ [new_user]"
    using findOrCreateLDAPUser_idempotent_lowercase_only [where nm = "''Bob''"
        and w = ?w1 and cfg = demo_config_ldap and d = demo_deps] lb ok first
    by simp
  then have i3: "length (users (snd (findOrCreateLDAPUser demo_config_ldap demo_deps ''Bob'' ?w1))) = 3"
    using i2 by auto
  show ?thesis using i1 i2 i3 by simp
qed

lemma userExist_next_iff:
  "fst (userExist cfg d body_username w) = Next
     \<longleftrightarrow> failing w User_count = None
         \<and> (\<forall>u\<in>set (users w). username u \<noteq> toLowerCase d body_username)"
  by (auto simp: userExist_def User_count_q_def count_docs_def filter_empty_conv
        split: option.splits)

lemma userExist_redirect:
  "fst (userExist cfg d body_username w) \<noteq> Next \<Longrightarrow>
   fst (userExist cfg d body_username w) = Redirect (ERR_SIGNUP_ALREADY_EXISTS cfg) (URL_SIGNUP cfg)"
  by (simp add: userExist_def split: prod.splits if_splits)

text \<open>
  C7, at a concrete input: with LDAP authentication and an empty user collection, two
  logins as \<open>Bob\<close> leave two user records with the username \<open>Bob\<close>. The lookup is by
  \<open>bob\<close>, the record is stored as \<open>Bob\<close>, so the second lookup finds nothing.
\<close>

theorem ldap_login_duplicates_username:
  "map username
     (users (snd (authenticate demo_config_ldap demo_deps ''Bob'' ''pw''
        (snd (authenticate demo_config_ldap demo_deps ''Bob'' ''pw''
           (demo_world\<lparr>users := []\<rparr>))))))
   = [''Bob'', ''Bob'']"
  by (simp add: authenticate_def findOrCreateLDAPUser_def isUsernameValid_def User_findOne_q_def
        findOne_def User_save_doc_def logged_def fresh_oid_def Let_def demo_config_ldap_def
        demo_config_def demo_deps_def demo_world_def demo_user_def toLowerCase_def is_ascii_def lower_char_def)

subsection \<open>How errors reach the caller\<close>

lemma authenticate_Callback: "\<exists>e v. fst (authenticate cfg d nm pass w) = Callback e v"
proof (cases "AUTH_USE_LDAP cfg")
  case True
  obtain e u where "fst (findOrCreateLDAPUser cfg d nm (logged LDAP_authenticate w)) = Callback e u"
    using findOrCreateLDAPUser_Callback by blast
  with True show ?thesis
    by (cases "findOrCreateLDAPUser cfg d nm (logged LDAP_authenticate w)")
       (simp add: authenticate_def Let_def split: option.splits)
next
  case False
  then show ?thesis
    by (simp add: authenticate_def Let_def split: option.splits sum.splits prod.splits)
qed

lemma isUsernameValid_Callback: "\<exists>e v. fst (isUsernameValid cfg d nm w) = Callback e v"
  by (simp add: isUsernameValid_def split: option.splits prod.splits)

lemma sendResetKey_Callback: "\<exists>e v. fst (sendResetKey cfg d now nm question answer w) = Callback e v"
  by (simp add: sendResetKey_def Let_def split: option.splits prod.splits)

lemma activateUser_outcome:
  "fst (activateUser cfg ident w) =
     (if failing w User_findOne = None \<and> (\<exists>u\<in>set (users w). oid u = ident)
      then (case failing w User_update of
              Some e \<Rightarrow> Thrown e
            | None \<Rightarrow> Callback None
                 (Some (matched (\<lambda>u. oid u = ident \<and> activated u = False) (users w))))
      else Callback (Some (new_Error (ERR_ACTIVATION_INVALID_KEY cfg))) None)"
proof (cases "find (\<lambda>u. oid u = ident) (users w)")
  case None
  then have "\<not> (\<exists>u\<in>set (users w). oid u = ident)"
    by (simp add: find_None_iff)
  with None show ?thesis
    by (simp add: activateUser_def User_findOne_q_def findOne_def split: option.splits)
next
  case (Some u)
  then have "\<exists>u\<in>set (users w). oid u = ident"
    using find_Some_in by fastforce
  with Some show ?thesis
    by (simp add: activateUser_def User_findOne_q_def findOne_def User_update_q_def logged_def
          split: option.splits)
qed

text \<open>
  C1, at a concrete input: the user exists and the update of \<open>activateUser\<close> fails. The
  error is thrown, the callback is not called.
\<close>

theorem activateUser_throws_counterexample:
  "fst (activateUser demo_config 1 demo_world_update_fails) = Thrown demo_error"
  by (simp add: activateUser_outcome demo_world_update_fails_def demo_world_def demo_user_def)

text \<open>
  C1, amended. \<open>authenticate\<close>, \<open>isUsernameValid\<close>, \<open>validateResetKey\<close>,
  \<open>sendResetKey\<close> and \<open>getUnreadFeedbackCount\<close> always end in a call of the callback
  and never throw; an error they report is its first argument. \<open>getFeedbackData\<close> calls
  back with a null error, \<open>saveLastSeen\<close> passes the message of an update error as first
  argument, \<open>saveFeedback\<close> never calls its callback. \<open>activateUser\<close> passes the
  invalid-key error to the callback when the lookup returns no user and otherwise throws
  the error of its update; \<open>resetPassword\<close> throws the error of hashing, of the user
  update and of the ticket update.
\<close>

theorem errors_by_callback_or_thrown:
  "(\<exists>e v. fst (authenticate cfg d nm pass w) = Callback e v)
   \<and> (\<exists>e v. fst (isUsernameValid cfg d nm w) = Callback e v)
   \<and> (\<exists>v. fst (validateResetKey cfg now key w) = Callback None v)
   \<and> (\<exists>e v. fst (sendResetKey cfg d now nm question answer w) = Callback e v)
   \<and> (\<exists>v. fst (getUnreadFeedbackCount seen w) = Callback None v)
   \<and> getFeedbackData_callback (err, found) = Callback None found
   \<and> saveLastSeen_callback (Some e, rec) = Callback (Some (message e)) None
   \<and> fst (saveFeedback d now nm data w) = NoCallback
   \<and> (failing w User_findOne = None \<and> (\<exists>u\<in>set (users w). oid u = ident) \<longrightarrow>
        (failing w User_update = Some e \<longrightarrow> fst (activateUser cfg ident w) = Thrown e)
        \<and> (failing w User_update = None \<longrightarrow> (\<exists>v. fst (activateUser cfg ident w) = Callback None v)))
   \<and> (\<not> (failing w User_findOne = None \<and> (\<exists>u\<in>set (users w). oid u = ident)) \<longrightarrow>
        fst (activateUser cfg ident w)
          = Callback (Some (new_Error (ERR_ACTIVATION_INVALID_KEY cfg))) None)
   \<and> (crypt_hash_new d pass = Inl e \<longrightarrow> fst (resetPassword d key pass w) = Thrown e)
   \<and> (crypt_hash_new d pass = Inr sh \<and> failing w User_update = Some e \<longrightarrow>
        fst (resetPassword d key pass w) = Thrown e)
   \<and> (crypt_hash_new d pass = Inr sh \<and> failing w User_update = None
        \<and> failing w PasswordReset_findOneAndUpdate = Some e \<longrightarrow>
        fst (resetPassword d key pass w) = Thrown e)
   \<and> (crypt_hash_new d pass = Inr sh \<and> failing w User_update = None
        \<and> failing w PasswordReset_findOneAndUpdate = None \<longrightarrow>
        fst (resetPassword d key pass w) = Callback None (Some True))"
proof -
  have v: "\<exists>v. fst (validateResetKey cfg now key w) = Callback None v"
    by (simp add: validateResetKey_def validateResetKey_callback_def Let_def
          split: prod.splits option.splits)
  have g: "\<exists>v. fst (getUnreadFeedbackCount seen w) = Callback None v"
    by (simp add: getUnreadFeedbackCount_def getUnreadFeedbackCount_callback_def
          split: prod.splits)
  have s: "fst (saveFeedback d now nm data w) = NoCallback"
    by (simp add: saveFeedback_def split: prod.splits)
  show ?thesis
    using authenticate_Callback [of cfg d nm pass w] isUsernameValid_Callback [of cfg d nm w]
      sendResetKey_Callback [of cfg d now nm question answer w] v g s
    by (simp add: activateUser_outcome resetPassword_outcome getFeedbackData_callback_def
          saveLastSeen_callback_def)
qed


theorem errors_by_callback_or_thrown_witness:
  "fst (activateUser demo_config 1 demo_world_update_fails) = Thrown demo_error
   \<and> (\<exists>v. fst (activateUser demo_config 1 demo_world) = Callback None v)
   \<and> fst (activateUser demo_config 7 demo_world)
       = Callback (Some (new_Error ''invalid activation key'')) None
   \<and> fst (resetPassword demo_deps_hash_fails ''k'' ''pw'' demo_world) = Thrown demo_hash_error
   \<and> fst (resetPassword demo_deps ''k'' ''pw'' demo_world_update_fails) = Thrown demo_error
   \<and> fst (resetPassword demo_deps ''k'' ''pw'' demo_world_ticket_update_fails) = Thrown demo_error
   \<and> fst (resetPassword demo_deps ''k'' ''pw'' demo_world) = Callback None (Some True)"
proof -
  have u1: "failing demo_world_update_fails User_findOne = None
            \<and> (\<exists>u\<in>set (users demo_world_update_fails). oid u = 1)"
    "failing demo_world_update_fails User_update = Some demo_error"
    by (simp_all add: demo_world_update_fails_def demo_world_def demo_user_def)
  have u2: "failing demo_world User_findOne = None \<and> (\<exists>u\<in>set (users demo_world). oid u = 1)"
    "failing demo_world User_update = None"
    "failing demo_world PasswordReset_findOneAndUpdate = None"
    by (simp_all add: demo_world_def demo_user_def)
  have u3: "\<not> (failing demo_world User_findOne = None \<and> (\<exists>u\<in>set (users demo_world). oid u = 7))"
    by (simp add: demo_world_def demo_user_def)
  have u4: "failing demo_world_ticket_update_fails User_update = None"
    "failing demo_world_ticket_update_fails PasswordReset_findOneAndUpdate = Some demo_error"
    by (simp_all add: demo_world_ticket_update_fails_def)
  have h1: "crypt_hash_new demo_deps_hash_fails ''pw'' = Inl demo_hash_error"
    by (simp add: demo_deps_hash_fails_def)
  have h2: "crypt_hash_new demo_deps ''pw'' = Inr (''t'', ''pwt'')"
    by (simp add: demo_deps_def)
  have i1: "fst (activateUser demo_config 1 demo_world_update_fails) = Thrown demo_error"
    using errors_by_callback_or_thrown [where w = demo_world_update_fails and ident = 1
        and e = demo_error and cfg = demo_config] u1
    by blast
  have i2: "\<exists>v. fst (activateUser demo_config 1 demo_world) = Callback None v"
    using errors_by_callback_or_thrown [where w = demo_world and ident = 1
        and cfg = demo_config] u2
    by blast
  have i3: "fst (activateUser demo_config 7 demo_world)
              = Callback (Some (new_Error (ERR_ACTIVATION_INVALID_KEY demo_config))) None"
    using errors_by_callback_or_thrown [where w = demo_world and ident = 7
        and cfg = demo_config] u3
    by blast
  have i4: "fst (resetPassword demo_deps_hash_fails ''k'' ''pw'' demo_world) = Thrown demo_hash_error"
    using errors_by_callback_or_thrown [where w = demo_world and d = demo_deps_hash_fails
        and pass = "''pw''" and key = "''k''" and e = demo_hash_error] h1
    by blast
  have i5: "fst (resetPassword demo_deps ''k'' ''pw'' demo_world_update_fails) = Thrown demo_error"
    using errors_by_callback_or_thrown [where w = demo_world_update_fails and d = demo_deps
        and pass = "''pw''" and key = "''k''" and e = demo_error and sh = "(''t'', ''pwt'')"]
      h2 u1
    by blast
  have i6: "fst (resetPassword demo_deps ''k'' ''pw'' demo_world_ticket_update_fails)
              = Thrown demo_error"
    using errors_by_callback_or_thrown [where w = demo_world_ticket_update_fails
        and d = demo_deps and pass = "''pw''" and key = "''k''" and e = demo_error
        and sh = "(''t'', ''pwt'')"] h2 u4
    by blast
  have i7: "fst (resetPassword demo_deps ''k'' ''pw'' demo_world) = Callback None (Some True)"
    using errors_by_callback_or_thrown [where w = demo_world and d = demo_deps
        and pass = "''pw''" and key = "''k''" and sh = "(''t'', ''pwt'')"] h2 u2
    by blast
  show ?thesis
    using i1 i2 i3 i4 i5 i6 i7 by (simp add: demo_config_def)
qed

end
